theory Spec2Isabelle
  imports Complex_Main "HOL-Library.Multiset"
begin

section \<open>The graph visualizer plugin: data model\<close>

text \<open>
  The module \<^verbatim>\<open>graph_visualizer.py\<close> defines one dataclass, \<^verbatim>\<open>GraphVisualizer\<close>, with
  two methods. \<^verbatim>\<open>preprocess\<close> stores a networkx graph in the attribute \<^verbatim>\<open>g\<close>;
  \<^verbatim>\<open>postprocess\<close> splits the nodes and edges of that graph by a solution and issues
  a fixed sequence of drawing calls.

  A networkx graph is used only through \<^verbatim>\<open>g.nodes()\<close> and \<^verbatim>\<open>g.edges()\<close>, both
  iterated in order: it is a record of two lists. Node identifiers are an arbitrary type
  with equality. Nothing is assumed about the two lists (no distinctness, no closure of
  the edges under the nodes).
\<close>

record 'n nx_graph =
  nodes :: "'n list"
  edges :: "('n \<times> 'n) list"

text \<open>
  The interface types of the host framework: \<^verbatim>\<open>Other[list]\<close> carries its payload in the
  field \<^verbatim>\<open>data\<close>, and a method returns its value wrapped in \<^verbatim>\<open>Data\<close>.
\<close>

datatype 'a other = Other (data: 'a)

datatype 'a result = Data 'a

text \<open>
  The two exceptions \<^verbatim>\<open>postprocess\<close> can raise: the \<^verbatim>\<open>ValueError\<close> of line 55 with its
  message, and the \<^verbatim>\<open>AttributeError\<close> of reading \<^verbatim>\<open>self.g\<close> before it was assigned
  (carrying the attribute's name).
\<close>

datatype error = AttributeError string | ValueError string

text \<open>
  The dataclass. The ten configuration fields are those of lines 22 to 31; \<^verbatim>\<open>g\<close> is not
  a field of the dataclass: it exists only once \<^verbatim>\<open>preprocess\<close> has assigned it, hence the
  option. Python floats are modelled by reals; the only arithmetic on them is the
  product \<^verbatim>\<open>self.edge_width*0.8\<close>.
\<close>

record 'n GraphVisualizer =
  highlight_nodes :: bool
  highlight_edges :: bool
  node_size :: int
  node_shape :: string
  edge_width :: real
  edge_style :: string
  font_size :: int
  solution_type :: string
  save_path :: string
  show_plot :: bool
  g :: "'n nx_graph option"

text \<open>The generated \<^verbatim>\<open>__init__\<close>: it stores its arguments and checks nothing.\<close>

definition GraphVisualizer_init ::
  "bool \<Rightarrow> bool \<Rightarrow> int \<Rightarrow> string \<Rightarrow> real \<Rightarrow> string \<Rightarrow> int \<Rightarrow> string \<Rightarrow> string \<Rightarrow> bool
     \<Rightarrow> 'n GraphVisualizer" where
  "GraphVisualizer_init hn he ns nsh ew es fs st sp sh =
     \<lparr> highlight_nodes = hn, highlight_edges = he, node_size = ns, node_shape = nsh,
       edge_width = ew, edge_style = es, font_size = fs, solution_type = st,
       save_path = sp, show_plot = sh, g = None \<rparr>"

text \<open>The constructor called with no argument: every field at its default.\<close>

definition GraphVisualizer_default :: "'n GraphVisualizer" where
  "GraphVisualizer_default =
     GraphVisualizer_init False False 300 ''o'' 1 ''solid'' 12 ''path'' [] True"

section \<open>preprocess\<close>

text \<open>
  \<^verbatim>\<open>data.as_nx_graph()\<close> belongs to the host framework's \<^verbatim>\<open>Graph\<close> type, which is not
  part of this repository: the conversion is a parameter.
\<close>

definition preprocess ::
  "('G \<Rightarrow> 'n nx_graph) \<Rightarrow> 'n GraphVisualizer \<Rightarrow> 'G \<Rightarrow> 'n GraphVisualizer \<times> 'G result" where
  "preprocess as_nx_graph self d = (self\<lparr>g := Some (as_nx_graph d)\<rparr>, Data d)"

section \<open>postprocess: the partitions\<close>

text \<open>Lines 40 and 41. Python's \<^verbatim>\<open>in\<close> on a list is membership.\<close>

definition included_nodes :: "'n nx_graph \<Rightarrow> 'n list \<Rightarrow> 'n list" where
  "included_nodes gr d = [node \<leftarrow> nodes gr. node \<in> set d]"

definition excluded_nodes :: "'n nx_graph \<Rightarrow> 'n list \<Rightarrow> 'n list" where
  "excluded_nodes gr d = [node \<leftarrow> nodes gr. node \<notin> set d]"

text \<open>
  Lines 43 and 44. \<^verbatim>\<open>pos\<close> is the dict returned by the layout, as the list of its items;
  the two label dicts map a node to itself.
\<close>

definition included_pos :: "('n \<times> 'p) list \<Rightarrow> 'n list \<Rightarrow> ('n \<times> 'n) list" where
  "included_pos pos d = [(n, n). (n, _) \<leftarrow> pos, n \<in> set d]"

definition excluded_pos :: "('n \<times> 'p) list \<Rightarrow> 'n list \<Rightarrow> ('n \<times> 'n) list" where
  "excluded_pos pos d = [(n, n). (n, _) \<leftarrow> pos, n \<notin> set d]"

text \<open>
  Lines 46 to 48. \<^verbatim>\<open>range(len(d) - 1)\<close> is empty for the empty list, where the bound
  is \<open>-1\<close>; the truncating subtraction on \<open>nat\<close> gives the same empty range. Every index
  read is in range: \<open>i + 1 < length d\<close> inside the comprehension, and \<^verbatim>\<open>d[-1]\<close>, \<^verbatim>\<open>d[0]\<close>
  are read only when the list has more than two elements.
\<close>

definition edge_list :: "'n list \<Rightarrow> ('n \<times> 'n) list" where
  "edge_list d =
     (let el = map (\<lambda>i. (d ! i, d ! (i + 1))) [0 ..< length d - 1]
      in if length d > 2 then el @ [(d ! (length d - 1), d ! 0)] else el)"

text \<open>Line 49.\<close>

definition included_edges_path :: "'n nx_graph \<Rightarrow> 'n list \<Rightarrow> ('n \<times> 'n) list" where
  "included_edges_path gr d =
     [e \<leftarrow> edges gr. e \<in> set (edge_list d) \<or> (snd e, fst e) \<in> set (edge_list d)]"

text \<open>Line 52.\<close>

definition included_edges_set :: "'n nx_graph \<Rightarrow> 'n list \<Rightarrow> ('n \<times> 'n) list" where
  "included_edges_set gr d = [e \<leftarrow> edges gr. fst e \<in> set d \<and> snd e \<in> set d]"

text \<open>Lines 50 and 53, the same comprehension in both branches.\<close>

definition excluded_edges_of :: "'n nx_graph \<Rightarrow> ('n \<times> 'n) list \<Rightarrow> ('n \<times> 'n) list" where
  "excluded_edges_of gr included_edges = [e \<leftarrow> edges gr. e \<notin> set included_edges]"

text \<open>
  Lines 45 to 55: the branch on \<^verbatim>\<open>solution_type\<close>. It yields the pair
  \<open>(included_edges, excluded_edges)\<close> or raises the \<^verbatim>\<open>ValueError\<close>, whose message is the
  f-string of line 55.
\<close>

definition invalid_solution_type :: "string \<Rightarrow> string" where
  "invalid_solution_type st =
     ''solution_type must be 'path' or 'set', and not '' @ st"

definition partition_edges ::
  "string \<Rightarrow> 'n nx_graph \<Rightarrow> 'n list \<Rightarrow> error + (('n \<times> 'n) list \<times> ('n \<times> 'n) list)" where
  "partition_edges st gr d =
     (if st = ''path'' then
        (let included_edges = included_edges_path gr d
         in Inr (included_edges, excluded_edges_of gr included_edges))
      else if st = ''set'' then
        (let included_edges = included_edges_set gr d
         in Inr (included_edges, excluded_edges_of gr included_edges))
      else Inl (ValueError (invalid_solution_type st)))"

section \<open>postprocess: the drawing calls\<close>

text \<open>
  A legend handle, \<^verbatim>\<open>Line2D(xdata, ydata, marker=, ls=, color=, label=,
  markerfacecolor=, markeredgewidth=, markersize=)\<close>.
\<close>

datatype Line2D =
  Line2D (xdata: "int list") (ydata: "int list") (marker: string) (ls: string)
    (color: string) (label: string) (markerfacecolor: string) (markeredgewidth: int)
    (markersize: int)

text \<open>
  The calls into networkx's drawing functions and into \<^verbatim>\<open>matplotlib.pyplot\<close>, each with
  the arguments the source passes, in the source's order. \<^verbatim>\<open>font_weight\<close> is passed in
  one of the two label calls only, hence the option.
\<close>

datatype ('n, 'p) draw_call =
    Draw_networkx_nodes "'n nx_graph" "('n \<times> 'p) list" "'n list" int string
  | Draw_networkx_labels "'n nx_graph" "('n \<times> 'p) list" "('n \<times> 'n) list" int "string option"
      string
  | Draw_networkx_edges "'n nx_graph" "('n \<times> 'p) list" "('n \<times> 'n) list" real string
  | Legend "Line2D list" string
  | Savefig string
  | Show

text \<open>Lines 56 to 63.\<close>

definition mark_solution_nodes :: "'n GraphVisualizer \<Rightarrow> string" where
  "mark_solution_nodes self = (if highlight_nodes self then ''red'' else ''black'')"

definition mark_solution_edges :: "'n GraphVisualizer \<Rightarrow> string" where
  "mark_solution_edges self = (if highlight_edges self then ''red'' else ''black'')"

text \<open>Lines 64 to 85.\<close>

definition legend_elements :: "'n GraphVisualizer \<Rightarrow> Line2D list" where
  "legend_elements self =
     [Line2D [0] [0] (node_shape self) (edge_style self) (mark_solution_edges self)
        ''Included'' (mark_solution_nodes self) 0 10,
      Line2D [0] [0] (node_shape self) (edge_style self) ''black''
        ''Excluded'' ''black'' 0 10]"

text \<open>
  Lines 86 to 109: the calls one run of \<^verbatim>\<open>postprocess\<close> issues once the partitions are
  computed, in the order of the source.
\<close>

definition draw_calls ::
  "'n GraphVisualizer \<Rightarrow> 'n nx_graph \<Rightarrow> ('n \<times> 'p) list \<Rightarrow> 'n list
     \<Rightarrow> ('n \<times> 'n) list \<Rightarrow> ('n \<times> 'n) list \<Rightarrow> ('n, 'p) draw_call list" where
  "draw_calls self gr pos d included_edges excluded_edges =
     [Draw_networkx_nodes gr pos (included_nodes gr d) (node_size self)
        (mark_solution_nodes self),
      Draw_networkx_nodes gr pos (excluded_nodes gr d) (node_size self) ''black'',
      Draw_networkx_labels gr pos (included_pos pos d) (font_size self) (Some ''bold'')
        ''white'',
      Draw_networkx_labels gr pos (excluded_pos pos d) (font_size self) None ''white'',
      Draw_networkx_edges gr pos excluded_edges (edge_width self * 0.8) ''black'',
      Draw_networkx_edges gr pos included_edges (edge_width self)
        (mark_solution_edges self)]
     @ (if highlight_nodes self \<or> highlight_edges self
        then [Legend (legend_elements self) ''best''] else [])
     @ (if save_path self \<noteq> [] then [Savefig (save_path self)] else [])
     @ (if show_plot self then [Show] else [])"

text \<open>
  The method. \<open>plt\<close> is the sequence of drawing calls issued so far on matplotlib's
  current figure; the method returns it extended, with its result or the exception it
  raised. \<^verbatim>\<open>nx.spring_layout\<close> is a library function with an unseeded random start:
  it is a parameter, standing for the outcome of this call.

  The first thing line 40 evaluates is \<^verbatim>\<open>self.g\<close>, which raises when \<^verbatim>\<open>preprocess\<close>
  never ran. The comprehensions of lines 40 to 44 and the layout have no effect on the
  figure, so an exception of the branch at lines 45 to 55 leaves \<open>plt\<close> as it was.
\<close>

definition postprocess ::
  "('n nx_graph \<Rightarrow> ('n \<times> 'p) list) \<Rightarrow> 'n GraphVisualizer \<Rightarrow> ('n, 'p) draw_call list
     \<Rightarrow> 'n list other
     \<Rightarrow> ('n, 'p) draw_call list \<times> (error + 'n list other result)" where
  "postprocess spring_layout self plt d =
     (case g self of
        None \<Rightarrow> (plt, Inl (AttributeError ''g''))
      | Some gr \<Rightarrow>
          (let pos = spring_layout gr in
           case partition_edges (solution_type self) gr (data d) of
             Inl e \<Rightarrow> (plt, Inl e)
           | Inr (included_edges, excluded_edges) \<Rightarrow>
               (plt @ draw_calls self gr pos (data d) included_edges excluded_edges,
                Inr (Data d))))"

section \<open>Reading a sequence of drawing calls\<close>

text \<open>
  What each kind of call was given, in the order of the calls: the node list, size and
  fill colour of every node-drawing call; the edge list, width and colour of every
  edge-drawing call; the label dict and font weight of every label call; the entry
  labels of every legend.
\<close>

fun node_draw :: "('n, 'p) draw_call \<Rightarrow> ('n list \<times> int \<times> string) list" where
  "node_draw (Draw_networkx_nodes G pos nodelist sz col) = [(nodelist, sz, col)]"
| "node_draw _ = []"

fun edge_draw :: "('n, 'p) draw_call \<Rightarrow> (('n \<times> 'n) list \<times> real \<times> string) list" where
  "edge_draw (Draw_networkx_edges G pos edgelist w col) = [(edgelist, w, col)]"
| "edge_draw _ = []"

fun label_draw :: "('n, 'p) draw_call \<Rightarrow> (('n \<times> 'n) list \<times> string option) list" where
  "label_draw (Draw_networkx_labels G pos labels fs fw col) = [(labels, fw)]"
| "label_draw _ = []"

fun legend_draw :: "('n, 'p) draw_call \<Rightarrow> string list list" where
  "legend_draw (Legend handles loc) = [map label handles]"
| "legend_draw _ = []"

definition node_draws :: "('n, 'p) draw_call list \<Rightarrow> ('n list \<times> int \<times> string) list" where
  "node_draws cs = concat (map node_draw cs)"

definition edge_draws ::
  "('n, 'p) draw_call list \<Rightarrow> (('n \<times> 'n) list \<times> real \<times> string) list" where
  "edge_draws cs = concat (map edge_draw cs)"

definition label_draws ::
  "('n, 'p) draw_call list \<Rightarrow> (('n \<times> 'n) list \<times> string option) list" where
  "label_draws cs = concat (map label_draw cs)"

definition legend_labels :: "('n, 'p) draw_call list \<Rightarrow> string list list" where
  "legend_labels cs = concat (map legend_draw cs)"

section \<open>The implied edges, in the words of the specification\<close>

text \<open>
  The specification describes the implied edge list of path mode as: each consecutive
  pair of the solution sequence, plus, if the solution has more than two elements, an
  edge from the last element to the first.
\<close>

fun consecutive_pairs :: "'a list \<Rightarrow> ('a \<times> 'a) list" where
  "consecutive_pairs (x # y # xs) = (x, y) # consecutive_pairs (y # xs)"
| "consecutive_pairs _ = []"

definition implied_edges_spec :: "'a list \<Rightarrow> ('a \<times> 'a) list" where
  "implied_edges_spec d =
     consecutive_pairs d @ (if length d > 2 then [(last d, hd d)] else [])"

section \<open>Concrete inputs\<close>

text \<open>
  The graph of the specification's scenarios: nodes A, B, C, D and the edges of the
  square. The layout used at concrete inputs places every node at the same position.
\<close>

definition square_graph :: "string nx_graph" where
  "square_graph =
     \<lparr> nodes = [''A'', ''B'', ''C'', ''D''],
       edges = [(''A'', ''B''), (''B'', ''C''), (''C'', ''D''), (''D'', ''A'')] \<rparr>"

definition flat_layout :: "string nx_graph \<Rightarrow> (string \<times> unit) list" where
  "flat_layout gr = map (\<lambda>n. (n, ())) (nodes gr)"

definition square_visualizer :: "string GraphVisualizer" where
  "square_visualizer = fst (preprocess id GraphVisualizer_default square_graph)"

section \<open>Helper lemmas\<close>

lemma excluded_edges_filter:
  "excluded_edges_of gr (filter P (edges gr)) = filter (\<lambda>e. \<not> P e) (edges gr)"
  unfolding excluded_edges_of_def by (rule filter_cong) auto

lemma filter_split_set:
  "set (filter P xs) \<union> set (filter (\<lambda>x. \<not> P x) xs) = set xs"
  "set (filter P xs) \<inter> set (filter (\<lambda>x. \<not> P x) xs) = {}"
  by auto

lemma filter_split_mset:
  "mset (filter P xs) + mset (filter (\<lambda>x. \<not> P x) xs) = mset xs"
  by (induction xs) auto

lemma excluded_edges_split:
  "set (filter P (edges gr)) \<union> set (excluded_edges_of gr (filter P (edges gr))) = set (edges gr)"
  "set (filter P (edges gr)) \<inter> set (excluded_edges_of gr (filter P (edges gr))) = {}"
  "mset (filter P (edges gr)) + mset (excluded_edges_of gr (filter P (edges gr))) = mset (edges gr)"
  unfolding excluded_edges_filter
  by (rule filter_split_set filter_split_mset)+

lemma partition_edges_path:
  "partition_edges ''path'' gr d =
     Inr (included_edges_path gr d, excluded_edges_of gr (included_edges_path gr d))"
  by (simp add: partition_edges_def Let_def)

lemma partition_edges_set:
  "partition_edges ''set'' gr d =
     Inr (included_edges_set gr d, excluded_edges_of gr (included_edges_set gr d))"
  by (simp add: partition_edges_def Let_def)

lemma partition_edges_filter:
  assumes "st = ''path'' \<or> st = ''set''"
  obtains P where
    "partition_edges st gr d =
       Inr (filter P (edges gr), excluded_edges_of gr (filter P (edges gr)))"
  using assms that
  by (auto simp: partition_edges_path partition_edges_set
      included_edges_path_def included_edges_set_def)

lemma partition_edges_invalid:
  assumes "st \<noteq> ''path''" and "st \<noteq> ''set''"
  shows "partition_edges st gr d = Inl (ValueError (invalid_solution_type st))"
  using assms by (simp add: partition_edges_def)

lemma postprocess_valid:
  assumes "g self = Some gr" and "partition_edges (solution_type self) gr (data d) = Inr (inc, exc)"
  shows "postprocess sl self plt d =
           (plt @ draw_calls self gr (sl gr) (data d) inc exc, Inr (Data d))"
  using assms by (simp add: postprocess_def)

lemma square_visualizer_simps:
  "g square_visualizer = Some square_graph"
  "solution_type square_visualizer = ''path''"
  "highlight_nodes square_visualizer = False"
  "highlight_edges square_visualizer = False"
  "edge_width square_visualizer = 1"
  "node_size square_visualizer = 300"
  by (simp_all add: square_visualizer_def preprocess_def GraphVisualizer_default_def
      GraphVisualizer_init_def)

lemma consecutive_pairs_nth:
  "map (\<lambda>i. (d ! i, d ! (i + 1))) [0 ..< length d - 1] = consecutive_pairs d"
proof (induction d rule: consecutive_pairs.induct)
  case (1 x y xs)
  have "map (\<lambda>i. ((x # y # xs) ! i, (x # y # xs) ! (i + 1))) [0 ..< Suc (length xs)]
        = (x, y) # map (\<lambda>i. ((y # xs) ! i, (y # xs) ! (i + 1))) [0 ..< length xs]"
    by (simp add: map_upt_Suc del: upt_Suc)
  with 1 show ?case by simp
qed simp_all

lemma length_consecutive_pairs: "length (consecutive_pairs d) = length d - 1"
  by (induction d rule: consecutive_pairs.induct) simp_all

lemma edge_list_spec: "edge_list d = implied_edges_spec d"
proof -
  have "length d > 2 \<Longrightarrow> d ! (length d - 1) = last d \<and> d ! 0 = hd d"
    by (cases d) (simp_all add: last_conv_nth hd_conv_nth)
  then show ?thesis
    unfolding edge_list_def implied_edges_spec_def Let_def consecutive_pairs_nth
    by simp
qed

lemma draws_append:
  "node_draws (xs @ ys) = node_draws xs @ node_draws ys"
  "edge_draws (xs @ ys) = edge_draws xs @ edge_draws ys"
  "label_draws (xs @ ys) = label_draws xs @ label_draws ys"
  "legend_labels (xs @ ys) = legend_labels xs @ legend_labels ys"
  by (simp_all add: node_draws_def edge_draws_def label_draws_def legend_labels_def)

lemma pos_labels_keys:
  "map fst (included_pos pos d) = [n \<leftarrow> map fst pos. n \<in> set d]"
  "map snd (included_pos pos d) = [n \<leftarrow> map fst pos. n \<in> set d]"
  "map fst (excluded_pos pos d) = [n \<leftarrow> map fst pos. n \<notin> set d]"
  "map snd (excluded_pos pos d) = [n \<leftarrow> map fst pos. n \<notin> set d]"
  unfolding included_pos_def excluded_pos_def
  by (induction pos) auto

lemma draws_of_draw_calls:
  "node_draws (draw_calls self gr pos d inc exc) =
     [(included_nodes gr d, node_size self, mark_solution_nodes self),
      (excluded_nodes gr d, node_size self, ''black'')]"
  "edge_draws (draw_calls self gr pos d inc exc) =
     [(exc, edge_width self * 0.8, ''black''),
      (inc, edge_width self, mark_solution_edges self)]"
  "label_draws (draw_calls self gr pos d inc exc) =
     [(included_pos pos d, Some ''bold''), (excluded_pos pos d, None)]"
  "legend_labels (draw_calls self gr pos d inc exc) =
     (if highlight_nodes self \<or> highlight_edges self
      then [[''Included'', ''Excluded'']] else [])"
  by (simp_all add: node_draws_def edge_draws_def label_draws_def legend_labels_def
      draw_calls_def legend_elements_def)

section \<open>The partitions are complete and disjoint\<close>

text \<open>
  C1. For every stored graph \<open>gr\<close> and every solution \<open>d\<close>, when the solution type is
  "path" or "set" the branch yields an included and an excluded edge list that split
  the edges of the graph: their union is the edge set, they have no common element, and
  (as multisets, so also counting repeated edges) they add up to the edge list. The
  included and excluded node lists split the nodes of the graph in the same way.
\<close>

theorem partitions_complete_disjoint:
  assumes "st = ''path'' \<or> st = ''set''"
  shows "(\<exists>inc exc. partition_edges st gr d = Inr (inc, exc)
           \<and> set inc \<union> set exc = set (edges gr)
           \<and> set inc \<inter> set exc = {}
           \<and> mset inc + mset exc = mset (edges gr))
         \<and> set (included_nodes gr d) \<union> set (excluded_nodes gr d) = set (nodes gr)
         \<and> set (included_nodes gr d) \<inter> set (excluded_nodes gr d) = {}
         \<and> mset (included_nodes gr d) + mset (excluded_nodes gr d) = mset (nodes gr)"
proof (intro conjI)
  from assms obtain P where
    "partition_edges st gr d =
       Inr (filter P (edges gr), excluded_edges_of gr (filter P (edges gr)))"
    by (rule partition_edges_filter)
  then show "\<exists>inc exc. partition_edges st gr d = Inr (inc, exc)
           \<and> set inc \<union> set exc = set (edges gr)
           \<and> set inc \<inter> set exc = {}
           \<and> mset inc + mset exc = mset (edges gr)"
    using excluded_edges_split [of P gr] by blast
  show "set (included_nodes gr d) \<union> set (excluded_nodes gr d) = set (nodes gr)"
    unfolding included_nodes_def excluded_nodes_def by (rule filter_split_set)
  show "set (included_nodes gr d) \<inter> set (excluded_nodes gr d) = {}"
    unfolding included_nodes_def excluded_nodes_def by (rule filter_split_set)
  show "mset (included_nodes gr d) + mset (excluded_nodes gr d) = mset (nodes gr)"
    unfolding included_nodes_def excluded_nodes_def by (rule filter_split_mset)
qed

theorem partitions_complete_disjoint_witness:
  "(''path'' = ''path'' \<or> ''path'' = ''set'')
   \<and> partition_edges ''path'' square_graph [''A'', ''B'', ''C'', ''D'']
       = Inr ([(''A'', ''B''), (''B'', ''C''), (''C'', ''D''), (''D'', ''A'')], [])
   \<and> (\<exists>inc exc. partition_edges ''path'' square_graph [''A'', ''B'', ''C'', ''D''] = Inr (inc, exc)
           \<and> set inc \<union> set exc = set (edges square_graph)
           \<and> set inc \<inter> set exc = {}
           \<and> mset inc + mset exc = mset (edges square_graph))
   \<and> set (included_nodes square_graph [''A'', ''B'', ''C'', ''D''])
       \<union> set (excluded_nodes square_graph [''A'', ''B'', ''C'', ''D'']) = set (nodes square_graph)"
proof -
  have h: "''path'' = ''path'' \<or> ''path'' = ''set''" by simp
  have e: "partition_edges ''path'' square_graph [''A'', ''B'', ''C'', ''D'']
       = Inr ([(''A'', ''B''), (''B'', ''C''), (''C'', ''D''), (''D'', ''A'')], [])"
    by (simp add: partition_edges_def included_edges_path_def excluded_edges_of_def
        edge_list_def square_graph_def Let_def upt_rec)
  show ?thesis
    using h e partitions_complete_disjoint [OF h, of square_graph "[''A'', ''B'', ''C'', ''D'']"]
    by blast
qed

section \<open>An invalid solution type\<close>

text \<open>
  C2. With a graph stored, for every \<^verbatim>\<open>solution_type\<close> other than "path" and "set",
  \<^verbatim>\<open>postprocess\<close> raises the \<^verbatim>\<open>ValueError\<close> of line 55, whose message ends with the
  invalid value, and the sequence of drawing calls is the one it started from: nothing
  was drawn. The constructor accepts the value; the error comes from
  \<^verbatim>\<open>postprocess\<close>, after construction and \<^verbatim>\<open>preprocess\<close> have returned.
\<close>

theorem invalid_solution_type_raises:
  assumes "g self = Some gr"
    and "solution_type self \<noteq> ''path''" and "solution_type self \<noteq> ''set''"
  shows "postprocess sl self plt d =
           (plt, Inl (ValueError
              (''solution_type must be 'path' or 'set', and not '' @ solution_type self)))
         \<and> postprocess sl
             (fst (preprocess conv
                (GraphVisualizer_init hn he ns nsh ew es fs (solution_type self) sp sh) gd))
             plt d =
           (plt, Inl (ValueError
              (''solution_type must be 'path' or 'set', and not '' @ solution_type self)))"
  using assms
  by (simp add: postprocess_def partition_edges_invalid invalid_solution_type_def
      preprocess_def GraphVisualizer_init_def)

theorem invalid_solution_type_raises_witness:
  "g (square_visualizer\<lparr>solution_type := ''tree''\<rparr>) = Some square_graph
   \<and> solution_type (square_visualizer\<lparr>solution_type := ''tree''\<rparr>) \<noteq> ''path''
   \<and> solution_type (square_visualizer\<lparr>solution_type := ''tree''\<rparr>) \<noteq> ''set''
   \<and> postprocess flat_layout (square_visualizer\<lparr>solution_type := ''tree''\<rparr>) []
         (Other [''A'', ''B'']) =
       ([], Inl (ValueError ''solution_type must be 'path' or 'set', and not tree''))"
proof -
  let ?v = "square_visualizer\<lparr>solution_type := ''tree''\<rparr>"
  have h1: "g ?v = Some square_graph" by (simp add: square_visualizer_simps)
  have h2: "solution_type ?v \<noteq> ''path''" by simp
  have h3: "solution_type ?v \<noteq> ''set''" by simp
  show ?thesis
    using h1 h2 h3
      invalid_solution_type_raises [OF h1 h2 h3, of flat_layout "[]" "Other [''A'', ''B'']",
        THEN conjunct1]
    by simp
qed

section \<open>Set mode\<close>

text \<open>
  C3. In set mode the included edges are the edges of the graph with both endpoints in
  the solution, in the order of the graph, and the excluded edges are all the others:
  an edge of the graph is included if and only if both its endpoints occur in the
  solution, and excluded if and only if it is not included.
\<close>

theorem set_mode_included_iff:
  "\<exists>inc exc. partition_edges ''set'' gr d = Inr (inc, exc)
     \<and> inc = [e \<leftarrow> edges gr. fst e \<in> set d \<and> snd e \<in> set d]
     \<and> exc = [e \<leftarrow> edges gr. \<not> (fst e \<in> set d \<and> snd e \<in> set d)]
     \<and> (\<forall>e \<in> set (edges gr).
           (e \<in> set inc \<longleftrightarrow> fst e \<in> set d \<and> snd e \<in> set d)
         \<and> (e \<in> set exc \<longleftrightarrow> e \<notin> set inc))"
  unfolding partition_edges_set included_edges_set_def excluded_edges_filter
  by auto

theorem set_mode_included_iff_witness:
  "partition_edges ''set'' square_graph [''A'', ''B'', ''C''] =
     Inr ([(''A'', ''B''), (''B'', ''C'')], [(''C'', ''D''), (''D'', ''A'')])
   \<and> (''A'', ''B'') \<in> set (edges square_graph)
   \<and> (''A'', ''B'') \<in> set [(''A'', ''B''), (''B'', ''C'')]
   \<and> ''A'' \<in> set [''A'', ''B'', ''C''] \<and> ''B'' \<in> set [''A'', ''B'', ''C'']
   \<and> (''C'', ''D'') \<in> set (edges square_graph)
   \<and> (''C'', ''D'') \<in> set [(''C'', ''D''), (''D'', ''A'')]
   \<and> ''D'' \<notin> set [''A'', ''B'', ''C'']"
proof -
  have e: "partition_edges ''set'' square_graph [''A'', ''B'', ''C''] =
     Inr ([(''A'', ''B''), (''B'', ''C'')], [(''C'', ''D''), (''D'', ''A'')])"
    by (simp add: partition_edges_def included_edges_set_def excluded_edges_of_def
        square_graph_def Let_def)
  have m: "(''A'', ''B'') \<in> set (edges square_graph)"
    "(''C'', ''D'') \<in> set (edges square_graph)"
    by (simp_all add: square_graph_def)
  from set_mode_included_iff [of square_graph "[''A'', ''B'', ''C'']"] e m
  show ?thesis by auto
qed

text \<open>
  C10. In set mode the partitions depend only on the set of the solution's elements:
  two solutions with the same elements, in any order and with any repetitions, give the
  same included and excluded edges and the same included and excluded nodes.
\<close>

theorem set_mode_depends_on_elements:
  assumes "set d1 = set d2"
  shows "partition_edges ''set'' gr d1 = partition_edges ''set'' gr d2
         \<and> included_nodes gr d1 = included_nodes gr d2
         \<and> excluded_nodes gr d1 = excluded_nodes gr d2"
  using assms
  by (simp add: partition_edges_set included_edges_set_def included_nodes_def
      excluded_nodes_def)

theorem set_mode_depends_on_elements_witness:
  "set [''C'', ''A'', ''C'', ''B''] = set [''A'', ''B'', ''C'']
   \<and> partition_edges ''set'' square_graph [''C'', ''A'', ''C'', ''B''] =
       Inr ([(''A'', ''B''), (''B'', ''C'')], [(''C'', ''D''), (''D'', ''A'')])
   \<and> partition_edges ''set'' square_graph [''A'', ''B'', ''C''] =
       Inr ([(''A'', ''B''), (''B'', ''C'')], [(''C'', ''D''), (''D'', ''A'')])
   \<and> included_nodes square_graph [''C'', ''A'', ''C'', ''B''] = [''A'', ''B'', ''C'']
   \<and> included_nodes square_graph [''A'', ''B'', ''C''] = [''A'', ''B'', ''C'']"
proof -
  have h: "set [''C'', ''A'', ''C'', ''B''] = set [''A'', ''B'', ''C'']" by auto
  have e: "partition_edges ''set'' square_graph [''A'', ''B'', ''C''] =
     Inr ([(''A'', ''B''), (''B'', ''C'')], [(''C'', ''D''), (''D'', ''A'')])"
    by (simp add: partition_edges_def included_edges_set_def excluded_edges_of_def
        square_graph_def Let_def)
  have n: "included_nodes square_graph [''A'', ''B'', ''C''] = [''A'', ''B'', ''C'']"
    by (simp add: included_nodes_def square_graph_def)
  show ?thesis
    using h e n set_mode_depends_on_elements [OF h, of square_graph]
    by simp
qed

section \<open>Path mode\<close>

text \<open>
  C4. The edge list built at lines 46 to 48 is the one the specification describes:
  the consecutive pairs of the solution, followed by the pair (last, first) exactly
  when the solution has more than two elements. For at most two elements it is the
  consecutive pairs alone, a single pair for two elements and none below; for more than
  two elements it has as many pairs as the solution has elements, the last one being the
  closing pair. In path mode an edge of the graph is included if and only if it or its
  reverse is in that list, and excluded if and only if it is not included.
\<close>

theorem path_mode_edge_list:
  "edge_list d = implied_edges_spec d
   \<and> (length d \<le> 2 \<longrightarrow>
        edge_list d = consecutive_pairs d
      \<and> edge_list d = (if length d = 2 then [(d ! 0, d ! 1)] else []))
   \<and> (length d > 2 \<longrightarrow>
        length (edge_list d) = length d
      \<and> butlast (edge_list d) = consecutive_pairs d
      \<and> last (edge_list d) = (last d, hd d))
   \<and> (\<exists>inc exc. partition_edges ''path'' gr d = Inr (inc, exc)
        \<and> set inc \<subseteq> set (edges gr)
        \<and> (\<forall>e \<in> set (edges gr).
              (e \<in> set inc \<longleftrightarrow>
                 e \<in> set (implied_edges_spec d) \<or> (snd e, fst e) \<in> set (implied_edges_spec d))
            \<and> (e \<in> set exc \<longleftrightarrow> e \<notin> set inc)))"
proof (intro conjI impI)
  show spec: "edge_list d = implied_edges_spec d" by (rule edge_list_spec)
  show "edge_list d = consecutive_pairs d" if "length d \<le> 2"
    using that by (simp add: spec implied_edges_spec_def)
  show "edge_list d = (if length d = 2 then [(d ! 0, d ! 1)] else [])" if "length d \<le> 2"
  proof (cases d)
    case Nil
    then show ?thesis by (simp add: edge_list_spec implied_edges_spec_def)
  next
    case (Cons x xs)
    with that show ?thesis
      by (cases xs) (simp_all add: edge_list_spec implied_edges_spec_def)
  qed
  show "length (edge_list d) = length d" if "length d > 2"
    using that by (simp add: spec implied_edges_spec_def length_consecutive_pairs)
  show "butlast (edge_list d) = consecutive_pairs d" if "length d > 2"
    using that by (simp add: spec implied_edges_spec_def)
  show "last (edge_list d) = (last d, hd d)" if "length d > 2"
    using that by (simp add: spec implied_edges_spec_def)
  show "\<exists>inc exc. partition_edges ''path'' gr d = Inr (inc, exc)
        \<and> set inc \<subseteq> set (edges gr)
        \<and> (\<forall>e \<in> set (edges gr).
              (e \<in> set inc \<longleftrightarrow>
                 e \<in> set (implied_edges_spec d) \<or> (snd e, fst e) \<in> set (implied_edges_spec d))
            \<and> (e \<in> set exc \<longleftrightarrow> e \<notin> set inc))"
    unfolding partition_edges_path included_edges_path_def excluded_edges_filter spec
    by auto
qed

theorem path_mode_edge_list_witness:
  "edge_list [''A'', ''B''] = [(''A'', ''B'')]
   \<and> length [''A'', ''B''] \<le> 2
   \<and> edge_list [''A'', ''B'', ''C'', ''D''] =
       [(''A'', ''B''), (''B'', ''C''), (''C'', ''D''), (''D'', ''A'')]
   \<and> length [''A'', ''B'', ''C'', ''D''] > 2
   \<and> length (edge_list [''A'', ''B'', ''C'', ''D'']) = length [''A'', ''B'', ''C'', ''D'']
   \<and> partition_edges ''path'' square_graph [''B'', ''A'', ''D''] =
       Inr ([(''A'', ''B''), (''D'', ''A'')], [(''B'', ''C''), (''C'', ''D'')])"
proof -
  have a: "length [''A'', ''B''] \<le> 2" by simp
  have b: "length [''A'', ''B'', ''C'', ''D''] > 2" by simp
  have c: "partition_edges ''path'' square_graph [''B'', ''A'', ''D''] =
       Inr ([(''A'', ''B''), (''D'', ''A'')], [(''B'', ''C''), (''C'', ''D'')])"
    by (simp add: partition_edges_def included_edges_path_def excluded_edges_of_def
        edge_list_def square_graph_def Let_def upt_rec)
  show ?thesis
    using a b c
      path_mode_edge_list [of "[''A'', ''B'']" square_graph]
      path_mode_edge_list [of "[''A'', ''B'', ''C'', ''D'']" square_graph]
    by (simp add: implied_edges_spec_def)
qed

section \<open>Both methods return their argument\<close>

text \<open>
  C5. \<^verbatim>\<open>preprocess\<close> returns the graph value it received, wrapped in \<^verbatim>\<open>Data\<close>, for
  every input. \<^verbatim>\<open>postprocess\<close> returns the solution value it received, wrapped in
  \<^verbatim>\<open>Data\<close>, whenever a graph is stored and the solution type is "path" or "set"; and
  whatever it returns, in any state, is that value.
\<close>

theorem passthrough:
  "snd (preprocess conv self gd) = Data gd
   \<and> (g self = Some gr \<and> (solution_type self = ''path'' \<or> solution_type self = ''set'')
        \<longrightarrow> snd (postprocess sl self plt d) = Inr (Data d))
   \<and> (\<forall>r. snd (postprocess sl self plt d) = Inr r \<longrightarrow> r = Data d)"
proof (intro conjI impI allI)
  show "snd (preprocess conv self gd) = Data gd"
    by (simp add: preprocess_def)
  show "snd (postprocess sl self plt d) = Inr (Data d)"
    if "g self = Some gr \<and> (solution_type self = ''path'' \<or> solution_type self = ''set'')"
  proof -
    from that have "solution_type self = ''path'' \<or> solution_type self = ''set''" ..
    then obtain P where
      "partition_edges (solution_type self) gr (data d) =
         Inr (filter P (edges gr), excluded_edges_of gr (filter P (edges gr)))"
      by (rule partition_edges_filter)
    with that show ?thesis by (simp add: postprocess_valid)
  qed
  show "r = Data d" if "snd (postprocess sl self plt d) = Inr r" for r
  proof (cases "g self")
    case None
    with that show ?thesis by (simp add: postprocess_def)
  next
    case (Some gr')
    show ?thesis
    proof (cases "partition_edges (solution_type self) gr' (data d)")
      case (Inl e)
      with Some that show ?thesis by (simp add: postprocess_def)
    next
      case (Inr p)
      obtain inc exc where "p = (inc, exc)" by (cases p)
      with Inr Some that show ?thesis by (simp add: postprocess_valid)
    qed
  qed
qed


theorem passthrough_witness:
  "g square_visualizer = Some square_graph
   \<and> solution_type square_visualizer = ''path''
   \<and> snd (preprocess id GraphVisualizer_default square_graph) = Data square_graph
   \<and> snd (postprocess flat_layout square_visualizer [] (Other [''A'', ''B'', ''C'', ''D'']))
       = Inr (Data (Other [''A'', ''B'', ''C'', ''D'']))"
proof -
  have h: "g square_visualizer = Some square_graph"
    "solution_type square_visualizer = ''path''"
    by (simp_all add: square_visualizer_simps)
  note p = passthrough [where conv = id and self = square_visualizer and gd = square_graph
      and gr = square_graph and sl = flat_layout
      and plt = "[]" and d = "Other [''A'', ''B'', ''C'', ''D'']"]
  from p h have a: "snd (postprocess flat_layout square_visualizer [] (Other [''A'', ''B'', ''C'', ''D'']))
       = Inr (Data (Other [''A'', ''B'', ''C'', ''D'']))"
    by blast
  have b: "snd (preprocess id GraphVisualizer_default square_graph) = Data square_graph"
    by (simp add: preprocess_def)
  from h a b show ?thesis by blast
qed

section \<open>postprocess before preprocess\<close>

text \<open>
  C9. A freshly constructed visualizer has no attribute \<^verbatim>\<open>g\<close>. Whatever its
  configuration (a valid solution type or not) and whatever the solution,
  \<^verbatim>\<open>postprocess\<close> fails at once with the \<^verbatim>\<open>AttributeError\<close> of reading \<^verbatim>\<open>self.g\<close>,
  before any drawing call and before the check of the solution type: no other behaviour
  is defined for rendering before a graph was given.
\<close>

theorem postprocess_before_preprocess:
  fixes sl :: "'n nx_graph \<Rightarrow> ('n \<times> 'p) list"
  shows "g (GraphVisualizer_init hn he ns nsh ew es fs st sp sh :: 'n GraphVisualizer) = None
   \<and> postprocess sl (GraphVisualizer_init hn he ns nsh ew es fs st sp sh) plt d =
       (plt, Inl (AttributeError ''g''))"
  by (simp add: postprocess_def GraphVisualizer_init_def)

theorem postprocess_before_preprocess_witness:
  "postprocess flat_layout GraphVisualizer_default [] (Other [''A'', ''B'']) =
     ([], Inl (AttributeError ''g''))"
  unfolding GraphVisualizer_default_def
  by (rule postprocess_before_preprocess [THEN conjunct2])

section \<open>The legend\<close>

text \<open>
  C6. In a render that completes (a graph is stored, the solution type is "path" or
  "set"), the calls issued contain one legend, with the two entries "Included" and
  "Excluded", if at least one of \<^verbatim>\<open>highlight_nodes\<close>, \<^verbatim>\<open>highlight_edges\<close> is set,
  and no legend otherwise.
\<close>

theorem legend_iff_highlight:
  assumes "g self = Some gr"
    and "solution_type self = ''path'' \<or> solution_type self = ''set''"
  shows "\<exists>calls. fst (postprocess sl self plt d) = plt @ calls
           \<and> legend_labels calls =
               (if highlight_nodes self \<or> highlight_edges self
                then [[''Included'', ''Excluded'']] else [])"
proof -
  from assms(2) obtain P where
    "partition_edges (solution_type self) gr (data d) =
       Inr (filter P (edges gr), excluded_edges_of gr (filter P (edges gr)))"
    by (rule partition_edges_filter)
  with assms(1) show ?thesis
    by (simp add: postprocess_valid draws_of_draw_calls)
qed

theorem legend_iff_highlight_witness:
  "g square_visualizer = Some square_graph
   \<and> (solution_type square_visualizer = ''path'' \<or> solution_type square_visualizer = ''set'')
   \<and> \<not> (highlight_nodes square_visualizer \<or> highlight_edges square_visualizer)
   \<and> legend_labels (fst (postprocess flat_layout square_visualizer []
         (Other [''A'', ''B'']))) = []
   \<and> legend_labels (fst (postprocess flat_layout
         (square_visualizer\<lparr>highlight_edges := True\<rparr>) [] (Other [''A'', ''B''])))
       = [[''Included'', ''Excluded'']]"
proof -
  let ?w = "square_visualizer\<lparr>highlight_edges := True\<rparr>"
  have h1: "g square_visualizer = Some square_graph"
    and h2: "solution_type square_visualizer = ''path'' \<or> solution_type square_visualizer = ''set''"
    and h3: "g ?w = Some square_graph"
    and h4: "solution_type ?w = ''path'' \<or> solution_type ?w = ''set''"
    by (simp_all add: square_visualizer_simps)
  show ?thesis
    using h1 h2
      legend_iff_highlight [OF h1 h2, of flat_layout "[]" "Other [''A'', ''B'']"]
      legend_iff_highlight [OF h3 h4, of flat_layout "[]" "Other [''A'', ''B'']"]
    by (auto simp: square_visualizer_simps)
qed

section \<open>Colours and widths\<close>

text \<open>
  With both highlight flags off, the source still draws the excluded edges at 0.8 times
  the configured width and the included edges at the full width, and the labels of the
  included nodes in bold: at the default configuration, on the square graph with the
  solution A, B, the two edge-drawing calls get the widths 0.8 and 1, and the labels
  of A and B are bold while those of C and D have the default weight.
\<close>

theorem undistinguished_edges_counterexample:
  "\<not> highlight_nodes square_visualizer \<and> \<not> highlight_edges square_visualizer
   \<and> edge_draws (fst (postprocess flat_layout square_visualizer [] (Other [''A'', ''B'']))) =
       [([(''B'', ''C''), (''C'', ''D''), (''D'', ''A'')], 4 / 5, ''black''),
        ([(''A'', ''B'')], 1, ''black'')]
   \<and> (4 / 5 :: real) \<noteq> 1
   \<and> label_draws (fst (postprocess flat_layout square_visualizer [] (Other [''A'', ''B''])))
       = [([(''A'', ''A''), (''B'', ''B'')], Some ''bold''),
          ([(''C'', ''C''), (''D'', ''D'')], None)]"
proof -
  have "partition_edges ''path'' square_graph [''A'', ''B''] =
          Inr ([(''A'', ''B'')], [(''B'', ''C''), (''C'', ''D''), (''D'', ''A'')])"
    by (simp add: partition_edges_def included_edges_path_def excluded_edges_of_def
        edge_list_def square_graph_def Let_def)
  then have "postprocess flat_layout square_visualizer [] (Other [''A'', ''B'']) =
      (draw_calls square_visualizer square_graph (flat_layout square_graph) [''A'', ''B'']
         [(''A'', ''B'')] [(''B'', ''C''), (''C'', ''D''), (''D'', ''A'')],
       Inr (Data (Other [''A'', ''B''])))"
    by (simp add: postprocess_def square_visualizer_simps)
  moreover have "included_pos (flat_layout square_graph) [''A'', ''B''] =
      [(''A'', ''A''), (''B'', ''B'')]"
    and "excluded_pos (flat_layout square_graph) [''A'', ''B''] =
      [(''C'', ''C''), (''D'', ''D'')]"
    by (simp_all add: included_pos_def excluded_pos_def flat_layout_def square_graph_def)
  ultimately show ?thesis
    by (simp add: draws_of_draw_calls square_visualizer_simps mark_solution_edges_def)
qed

text \<open>
  C7, as the code has it. In a render that completes, the included nodes are drawn in
  red if \<^verbatim>\<open>highlight_nodes\<close> is set and in black otherwise, the excluded nodes in
  black, both at the configured size; the included edges are drawn in red if
  \<^verbatim>\<open>highlight_edges\<close> is set and in black otherwise, the excluded edges in black. So
  with a flag set the colours differ, and with it unset they are equal. Whatever the
  flags, the excluded edges are drawn at 0.8 times the configured width and the included
  edges at the configured width; and there are two label calls, the first with the
  bold weight and the label dict of line 43, whose keys and values are the laid-out
  nodes that occur in the solution, the second with the default weight and the label
  dict of line 44, whose keys and values are the laid-out nodes that do not.
\<close>

theorem highlight_styles:
  assumes "g self = Some gr"
    and "solution_type self = ''path'' \<or> solution_type self = ''set''"
  shows "\<exists>calls inc exc. fst (postprocess sl self plt d) = plt @ calls
           \<and> partition_edges (solution_type self) gr (data d) = Inr (inc, exc)
           \<and> node_draws calls =
               [(included_nodes gr (data d), node_size self,
                   if highlight_nodes self then ''red'' else ''black''),
                (excluded_nodes gr (data d), node_size self, ''black'')]
           \<and> edge_draws calls =
               [(exc, edge_width self * 0.8, ''black''),
                (inc, edge_width self, if highlight_edges self then ''red'' else ''black'')]
           \<and> label_draws calls =
               [(included_pos (sl gr) (data d), Some ''bold''),
                (excluded_pos (sl gr) (data d), None)]
           \<and> map fst (included_pos (sl gr) (data d)) =
               [n \<leftarrow> map fst (sl gr). n \<in> set (data d)]
           \<and> map snd (included_pos (sl gr) (data d)) =
               [n \<leftarrow> map fst (sl gr). n \<in> set (data d)]
           \<and> map fst (excluded_pos (sl gr) (data d)) =
               [n \<leftarrow> map fst (sl gr). n \<notin> set (data d)]
           \<and> map snd (excluded_pos (sl gr) (data d)) =
               [n \<leftarrow> map fst (sl gr). n \<notin> set (data d)]"
proof -
  from assms(2) obtain P where
    "partition_edges (solution_type self) gr (data d) =
       Inr (filter P (edges gr), excluded_edges_of gr (filter P (edges gr)))"
    by (rule partition_edges_filter)
  with assms(1) have "fst (postprocess sl self plt d) =
      plt @ draw_calls self gr (sl gr) (data d) (filter P (edges gr))
        (excluded_edges_of gr (filter P (edges gr)))
    \<and> partition_edges (solution_type self) gr (data d) =
       Inr (filter P (edges gr), excluded_edges_of gr (filter P (edges gr)))"
    by (simp add: postprocess_valid)
  then show ?thesis
    by (intro exI [of _ "draw_calls self gr (sl gr) (data d) (filter P (edges gr))
          (excluded_edges_of gr (filter P (edges gr)))"]
        exI [of _ "filter P (edges gr)"]
        exI [of _ "excluded_edges_of gr (filter P (edges gr))"])
       (simp add: draws_of_draw_calls mark_solution_nodes_def mark_solution_edges_def
          pos_labels_keys)
qed

theorem highlight_styles_witness:
  "g (square_visualizer\<lparr>highlight_edges := True\<rparr>) = Some square_graph
   \<and> (solution_type (square_visualizer\<lparr>highlight_edges := True\<rparr>) = ''path''
      \<or> solution_type (square_visualizer\<lparr>highlight_edges := True\<rparr>) = ''set'')
   \<and> edge_draws (fst (postprocess flat_layout (square_visualizer\<lparr>highlight_edges := True\<rparr>) []
         (Other [''A'', ''B'']))) =
       [([(''B'', ''C''), (''C'', ''D''), (''D'', ''A'')], 4 / 5, ''black''),
        ([(''A'', ''B'')], 1, ''red'')]
   \<and> node_draws (fst (postprocess flat_layout (square_visualizer\<lparr>highlight_edges := True\<rparr>) []
         (Other [''A'', ''B'']))) =
       [([''A'', ''B''], 300, ''black''), ([''C'', ''D''], 300, ''black'')]
   \<and> label_draws (fst (postprocess flat_layout (square_visualizer\<lparr>highlight_edges := True\<rparr>) []
         (Other [''A'', ''B'']))) =
       [([(''A'', ''A''), (''B'', ''B'')], Some ''bold''),
        ([(''C'', ''C''), (''D'', ''D'')], None)]"
proof -
  let ?w = "square_visualizer\<lparr>highlight_edges := True\<rparr>"
  have h1: "g ?w = Some square_graph"
    and h2: "solution_type ?w = ''path'' \<or> solution_type ?w = ''set''"
    by (simp_all add: square_visualizer_simps)
  have e: "partition_edges ''path'' square_graph [''A'', ''B''] =
          Inr ([(''A'', ''B'')], [(''B'', ''C''), (''C'', ''D''), (''D'', ''A'')])"
    by (simp add: partition_edges_def included_edges_path_def excluded_edges_of_def
        edge_list_def square_graph_def Let_def)
  have n: "included_nodes square_graph [''A'', ''B''] = [''A'', ''B'']"
    "excluded_nodes square_graph [''A'', ''B''] = [''C'', ''D'']"
    by (simp_all add: included_nodes_def excluded_nodes_def square_graph_def)
  have p: "included_pos (flat_layout square_graph) [''A'', ''B''] =
      [(''A'', ''A''), (''B'', ''B'')]"
    "excluded_pos (flat_layout square_graph) [''A'', ''B''] =
      [(''C'', ''C''), (''D'', ''D'')]"
    by (simp_all add: included_pos_def excluded_pos_def flat_layout_def square_graph_def)
  from highlight_styles [OF h1 h2, of flat_layout "[]" "Other [''A'', ''B'']"]
  obtain calls inc exc where
    c: "fst (postprocess flat_layout ?w [] (Other [''A'', ''B''])) = calls"
    and q: "partition_edges (solution_type ?w) square_graph [''A'', ''B''] = Inr (inc, exc)"
    and nd: "node_draws calls =
       [(included_nodes square_graph [''A'', ''B''], node_size ?w,
           if highlight_nodes ?w then ''red'' else ''black''),
        (excluded_nodes square_graph [''A'', ''B''], node_size ?w, ''black'')]"
    and ed: "edge_draws calls =
       [(exc, edge_width ?w * 0.8, ''black''),
        (inc, edge_width ?w, if highlight_edges ?w then ''red'' else ''black'')]"
    and ld: "label_draws calls =
       [(included_pos (flat_layout square_graph) [''A'', ''B''], Some ''bold''),
        (excluded_pos (flat_layout square_graph) [''A'', ''B''], None)]"
    by auto
  from q e have ie: "inc = [(''A'', ''B'')]"
    "exc = [(''B'', ''C''), (''C'', ''D''), (''D'', ''A'')]"
    by (simp_all add: square_visualizer_simps)
  show ?thesis
    using h1 h2 c nd ed ld
    by (simp add: ie n p square_visualizer_simps)
qed

text \<open>
  At the default configuration \<^verbatim>\<open>highlight_nodes\<close> is off, and both node-drawing calls
  get the fill colour black.
\<close>

theorem same_fill_colour_counterexample:
  "\<not> highlight_nodes square_visualizer
   \<and> node_draws (fst (postprocess flat_layout square_visualizer [] (Other [''A'', ''B'']))) =
       [([''A'', ''B''], 300, ''black''), ([''C'', ''D''], 300, ''black'')]"
proof -
  have "partition_edges ''path'' square_graph [''A'', ''B''] =
          Inr ([(''A'', ''B'')], [(''B'', ''C''), (''C'', ''D''), (''D'', ''A'')])"
    by (simp add: partition_edges_def included_edges_path_def excluded_edges_of_def
        edge_list_def square_graph_def Let_def)
  then have "postprocess flat_layout square_visualizer [] (Other [''A'', ''B'']) =
      (draw_calls square_visualizer square_graph (flat_layout square_graph) [''A'', ''B'']
         [(''A'', ''B'')] [(''B'', ''C''), (''C'', ''D''), (''D'', ''A'')],
       Inr (Data (Other [''A'', ''B''])))"
    by (simp add: postprocess_def square_visualizer_simps)
  then show ?thesis
    by (simp add: draws_of_draw_calls square_visualizer_simps mark_solution_nodes_def
        included_nodes_def excluded_nodes_def square_graph_def)
qed

text \<open>
  C8, as the code has it. In a render that completes, the included and the excluded
  nodes are drawn by two separate calls, and the two fill colours differ exactly when
  \<^verbatim>\<open>highlight_nodes\<close> is set (red against black); when it is not, both are black.
\<close>

theorem node_fill_colours:
  assumes "g self = Some gr"
    and "solution_type self = ''path'' \<or> solution_type self = ''set''"
  shows "\<exists>calls c_inc c_exc. fst (postprocess sl self plt d) = plt @ calls
           \<and> node_draws calls =
               [(included_nodes gr (data d), node_size self, c_inc),
                (excluded_nodes gr (data d), node_size self, c_exc)]
           \<and> (c_inc \<noteq> c_exc \<longleftrightarrow> highlight_nodes self)
           \<and> (highlight_nodes self \<longrightarrow> c_inc = ''red'' \<and> c_exc = ''black'')
           \<and> (\<not> highlight_nodes self \<longrightarrow> c_inc = ''black'' \<and> c_exc = ''black'')"
proof -
  from assms(2) obtain P where
    "partition_edges (solution_type self) gr (data d) =
       Inr (filter P (edges gr), excluded_edges_of gr (filter P (edges gr)))"
    by (rule partition_edges_filter)
  with assms(1) show ?thesis
    by (simp add: postprocess_valid draws_of_draw_calls mark_solution_nodes_def)
qed

theorem node_fill_colours_witness:
  "g (square_visualizer\<lparr>highlight_nodes := True\<rparr>) = Some square_graph
   \<and> (solution_type (square_visualizer\<lparr>highlight_nodes := True\<rparr>) = ''path''
      \<or> solution_type (square_visualizer\<lparr>highlight_nodes := True\<rparr>) = ''set'')
   \<and> node_draws (fst (postprocess flat_layout (square_visualizer\<lparr>highlight_nodes := True\<rparr>) []
         (Other [''A'', ''B'']))) =
       [([''A'', ''B''], 300, ''red''), ([''C'', ''D''], 300, ''black'')]"
proof -
  let ?w = "square_visualizer\<lparr>highlight_nodes := True\<rparr>"
  have h1: "g ?w = Some square_graph"
    and h2: "solution_type ?w = ''path'' \<or> solution_type ?w = ''set''"
    by (simp_all add: square_visualizer_simps)
  have n: "included_nodes square_graph [''A'', ''B''] = [''A'', ''B'']"
    "excluded_nodes square_graph [''A'', ''B''] = [''C'', ''D'']"
    by (simp_all add: included_nodes_def excluded_nodes_def square_graph_def)
  show ?thesis
    using h1 h2 node_fill_colours [OF h1 h2, of flat_layout "[]" "Other [''A'', ''B'']"]
    by (auto simp: square_visualizer_simps n)
qed

end
